theory Spec2Isabelle
  imports Complex_Main "HOL-Library.AList"
begin

section \<open>The model store of api.py\<close>

text \<open>
  The recommendation service keeps five structures in \<^verbatim>\<open>model_data\<close>: two labelled
  numeric tables (the member-by-course interaction matrix and the member-by-member
  similarity matrix), two row tables (members and courses) and a dictionary of display
  names.

  A labelled table is given by its row labels, its column labels and the value stored at
  a pair of labels. The embedding covers tables whose labels are unique and are strings,
  so that \<^verbatim>\<open>str(member_id)\<close> and \<^verbatim>\<open>str(course_id)\<close> are the identity. Python floats are
  idealised as real numbers: sums, products and comparisons are exact.
\<close>

datatype error = KeyError string | IndexError

record frame =
  index :: "string list"
  columns :: "string list"
  cell :: "string \<Rightarrow> string \<Rightarrow> real"

record series =
  s_index :: "string list"
  s_value :: "string \<Rightarrow> real"

record member_row =
  member_id :: string
  tier :: string

record course_row =
  course_id :: string
  name :: string
  city :: string
  state :: string
  tier_required :: string

record model_data =
  member_course_matrix :: frame
  member_similarity_df :: frame
  members_df :: "member_row list"
  courses_df :: "course_row list"
  member_names :: "string \<rightharpoonup> string"

text \<open>One entry of the returned list (the dictionary built at lines 98-106 and 117-125).\<close>

record recommendation =
  rec_id :: string
  rec_name :: string
  rec_city :: string
  rec_state :: string
  rec_tier_required :: string
  score :: real
  reason :: string

section \<open>Table and list primitives\<close>

text \<open>\<^verbatim>\<open>df[c]\<close>: the column labelled \<open>c\<close>, indexed by the row labels; KeyError when absent.\<close>

definition getitem_column :: "frame \<Rightarrow> string \<Rightarrow> error + series" where
  "getitem_column df c =
     (if c \<in> set (columns df)
      then Inr \<lparr>s_index = index df, s_value = (\<lambda>r. cell df r c)\<rparr>
      else Inl (KeyError c))"

text \<open>\<^verbatim>\<open>s.drop(k)\<close>: the series without the label \<open>k\<close>; KeyError when \<open>k\<close> is not a label.\<close>

definition drop_label :: "series \<Rightarrow> string \<Rightarrow> error + series" where
  "drop_label s k =
     (if k \<in> set (s_index s)
      then Inr (s\<lparr>s_index := filter (\<lambda>l. l \<noteq> k) (s_index s)\<rparr>)
      else Inl (KeyError k))"

text \<open>\<^verbatim>\<open>s[k]\<close>: the value at label \<open>k\<close>; KeyError when \<open>k\<close> is not a label.\<close>

definition series_get :: "series \<Rightarrow> string \<Rightarrow> error + real" where
  "series_get s k = (if k \<in> set (s_index s) then Inr (s_value s k) else Inl (KeyError k))"

text \<open>\<^verbatim>\<open>df.loc[r, c]\<close>: the value at row \<open>r\<close> and column \<open>c\<close>; KeyError when either is absent.\<close>

definition loc :: "frame \<Rightarrow> string \<Rightarrow> string \<Rightarrow> error + real" where
  "loc df r c =
     (if r \<notin> set (index df) then Inl (KeyError r)
      else if c \<notin> set (columns df) then Inl (KeyError c)
      else Inr (cell df r c))"

text \<open>
  \<^verbatim>\<open>xs[:n]\<close> and \<^verbatim>\<open>df.head(n)\<close>: the first \<open>n\<close> entries when \<open>n\<close> is not negative, and
  all but the last \<open>-n\<close> entries when it is.
\<close>

definition slice_to :: "int \<Rightarrow> 'a list \<Rightarrow> 'a list" where
  "slice_to n xs =
     (if 0 \<le> n then take (nat n) xs else take (length xs - nat (- n)) xs)"

text \<open>
  \<^verbatim>\<open>sorted(items, key=lambda x: x[1], reverse=True)\<close>: a stable sort by descending second
  component; Python reverses, sorts stably in ascending order, and reverses again.
\<close>

definition sorted_desc :: "(string \<times> real) list \<Rightarrow> (string \<times> real) list" where
  "sorted_desc items = rev (sort_key snd (rev items))"

text \<open>\<^verbatim>\<open>round(x, ndigits)\<close> on the exact value: to the nearest, ties to the even digit.\<close>

definition round_half_even :: "real \<Rightarrow> int" where
  "round_half_even x =
     (let f = \<lfloor>x\<rfloor>; d = x - of_int f
      in if d < 1 / 2 then f else if 1 / 2 < d then f + 1
         else if even f then f else f + 1)"

definition py_round :: "real \<Rightarrow> nat \<Rightarrow> real" where
  "py_round x ndigits = of_int (round_half_even (x * 10 ^ ndigits)) / 10 ^ ndigits"

text \<open>\<^verbatim>\<open>sep.join(xs)\<close>.\<close>

fun join :: "string \<Rightarrow> string list \<Rightarrow> string" where
  "join sep [] = []"
| "join sep [x] = x"
| "join sep (x # y # ys) = x @ sep @ join sep (y # ys)"

section \<open>The fallback: get_popular_courses (lines 110-126)\<close>

definition popular_entry :: "course_row \<Rightarrow> recommendation" where
  "popular_entry course =
     \<lparr>rec_id = course_id course, rec_name = name course, rec_city = city course,
      rec_state = state course, rec_tier_required = tier_required course,
      score = 0, reason = ''Popular course''\<rparr>"

definition get_popular_courses :: "model_data \<Rightarrow> string \<Rightarrow> int \<Rightarrow> recommendation list" where
  "get_popular_courses md mid n = map popular_entry (slice_to n (courses_df md))"

section \<open>The scoring path: get_recommendations (lines 31-108)\<close>

text \<open>Lines 76-80: the inner loop that accumulates \<open>similarity * plays\<close> over the other members.\<close>

fun score_loop :: "frame \<Rightarrow> series \<Rightarrow> string \<Rightarrow> string list \<Rightarrow> real \<Rightarrow> error + real" where
  "score_loop mcm sims c [] acc = Inr acc"
| "score_loop mcm sims c (other # rest) acc =
     (case series_get sims other of
        Inl e \<Rightarrow> Inl e
      | Inr similarity \<Rightarrow>
          (case loc mcm other c of
             Inl e \<Rightarrow> Inl e
           | Inr plays \<Rightarrow> score_loop mcm sims c rest (acc + similarity * plays)))"

text \<open>
  Lines 64-82: the loop over the matrix columns. \<open>course_scores\<close> is a dictionary, kept
  as an association list in insertion order.
\<close>

fun scores_loop ::
  "model_data \<Rightarrow> series \<Rightarrow> bool \<Rightarrow> string set \<Rightarrow> string list \<Rightarrow>
   (string \<times> real) list \<Rightarrow> error + (string \<times> real) list" where
  "scores_loop md sims is_premium played [] course_scores = Inr course_scores"
| "scores_loop md sims is_premium played (c # cs) course_scores =
     (if c \<in> played then scores_loop md sims is_premium played cs course_scores
      else
        (case filter (\<lambda>r. course_id r = c) (courses_df md) of
           [] \<Rightarrow> scores_loop md sims is_premium played cs course_scores
         | course_row # _ \<Rightarrow>
             if tier_required course_row = ''premium'' \<and> \<not> is_premium
             then scores_loop md sims is_premium played cs course_scores
             else
               (case score_loop (member_course_matrix md) sims c (s_index sims) 0 of
                  Inl e \<Rightarrow> Inl e
                | Inr sc \<Rightarrow>
                    scores_loop md sims is_premium played cs
                      (AList.update c sc course_scores))))"

text \<open>Line 93: \<^verbatim>\<open>member_names.get(str(other_id), 'Member')\<close>.\<close>

definition display_name :: "model_data \<Rightarrow> string \<Rightarrow> string" where
  "display_name md other = (case member_names md other of None \<Rightarrow> ''Member'' | Some nm \<Rightarrow> nm)"

text \<open>
  Lines 90-94: the names of the similar members who played the course. The conjunction
  is evaluated left to right, so the similarity is only read when the play count is
  positive.
\<close>

fun similar_loop ::
  "model_data \<Rightarrow> series \<Rightarrow> string \<Rightarrow> string list \<Rightarrow> string list \<Rightarrow> error + string list" where
  "similar_loop md sims c [] similar_members = Inr similar_members"
| "similar_loop md sims c (other # rest) similar_members =
     (case loc (member_course_matrix md) other c of
        Inl e \<Rightarrow> Inl e
      | Inr plays \<Rightarrow>
          if 0 < plays then
            (case series_get sims other of
               Inl e \<Rightarrow> Inl e
             | Inr similarity \<Rightarrow>
                 if 3 / 10 < similarity
                 then similar_loop md sims c rest (similar_members @ [display_name md other])
                 else similar_loop md sims c rest similar_members)
          else similar_loop md sims c rest similar_members)"

text \<open>Line 96: the explanation shown with a recommendation.\<close>

definition reason_of :: "string list \<Rightarrow> string" where
  "reason_of similar_members =
     (if similar_members \<noteq> [] then ''Played by: '' @ join '', '' (take 2 similar_members)
      else ''Recommended for you'')"

text \<open>
  Lines 88-106: the body of the second loop, one result for a selected course;
  \<^verbatim>\<open>.iloc[0]\<close> fails on an empty selection.
\<close>

definition result_entry :: "model_data \<Rightarrow> series \<Rightarrow> string \<Rightarrow> real \<Rightarrow> error + recommendation" where
  "result_entry md sims c sc =
     (case filter (\<lambda>r. course_id r = c) (courses_df md) of
        [] \<Rightarrow> Inl IndexError
      | course_info # _ \<Rightarrow>
          (case similar_loop md sims c (s_index sims) [] of
             Inl e \<Rightarrow> Inl e
           | Inr similar_members \<Rightarrow>
               Inr \<lparr>rec_id = c, rec_name = name course_info, rec_city = city course_info,
                    rec_state = state course_info,
                    rec_tier_required = tier_required course_info,
                    score = py_round sc 2, reason = reason_of similar_members\<rparr>))"

text \<open>Lines 86-87 and 98: the second loop appends one result per selected course.\<close>

fun results_loop ::
  "model_data \<Rightarrow> series \<Rightarrow> (string \<times> real) list \<Rightarrow> recommendation list \<Rightarrow>
   error + recommendation list" where
  "results_loop md sims [] results = Inr results"
| "results_loop md sims ((c, sc) # rest) results =
     (case result_entry md sims c sc of
        Inl e \<Rightarrow> Inl e
      | Inr entry \<Rightarrow> results_loop md sims rest (results @ [entry]))"

text \<open>Line 56: the courses the member has played.\<close>

definition played_courses_of :: "model_data \<Rightarrow> string \<Rightarrow> string set" where
  "played_courses_of md mid =
     set (filter (\<lambda>c. 0 < cell (member_course_matrix md) mid c)
            (columns (member_course_matrix md)))"

text \<open>Lines 34-108.\<close>

definition get_recommendations ::
  "model_data \<Rightarrow> string \<Rightarrow> int \<Rightarrow> error + recommendation list" where
  "get_recommendations md mid n_recommendations =
     (if mid \<notin> set (index (member_course_matrix md))
      then Inr (get_popular_courses md mid n_recommendations)
      else
        (case filter (\<lambda>r. member_id r = mid) (members_df md) of
           [] \<Rightarrow> Inr []
         | member_row # _ \<Rightarrow>
             (let is_premium = (tier member_row = ''premium'');
                  played_courses = played_courses_of md mid
              in case getitem_column (member_similarity_df md) mid of
                   Inl e \<Rightarrow> Inl e
                 | Inr col \<Rightarrow>
                     (case drop_label col mid of
                        Inl e \<Rightarrow> Inl e
                      | Inr similarities \<Rightarrow>
                          (case scores_loop md similarities is_premium played_courses
                                  (columns (member_course_matrix md)) [] of
                             Inl e \<Rightarrow> Inl e
                           | Inr course_scores \<Rightarrow>
                               results_loop md similarities
                                 (slice_to n_recommendations (sorted_desc course_scores))
                                 [])))))"

section \<open>A small model store\<close>

text \<open>
  Three members and four matrix columns. \<open>M1\<close> is premium, \<open>M2\<close> is standard and \<open>M3\<close> has
  no row in the member table. Course \<open>C2\<close> requires the premium tier and column \<open>C4\<close> has
  no course metadata. \<open>M1\<close> has similarity 0.8 to \<open>M2\<close> and 0.1 to \<open>M3\<close>; \<open>M2\<close> played
  \<open>C1\<close> twice and \<open>M3\<close> played it once.
\<close>

definition table :: "((string \<times> string) \<times> real) list \<Rightarrow> string \<Rightarrow> string \<Rightarrow> real" where
  "table entries r c = (case map_of entries (r, c) of None \<Rightarrow> 0 | Some v \<Rightarrow> v)"

definition ex_matrix :: frame where
  "ex_matrix =
     \<lparr>index = [''M1'', ''M2'', ''M3''], columns = [''C1'', ''C2'', ''C3'', ''C4''],
      cell = table [((''M1'', ''C3''), 1), ((''M2'', ''C1''), 2), ((''M3'', ''C1''), 1),
                    ((''M3'', ''C2''), 1), ((''M3'', ''C4''), 3)]\<rparr>"

definition ex_similarity :: frame where
  "ex_similarity =
     \<lparr>index = [''M1'', ''M2'', ''M3''], columns = [''M1'', ''M2'', ''M3''],
      cell = table [((''M1'', ''M1''), 1), ((''M2'', ''M2''), 1), ((''M3'', ''M3''), 1),
                    ((''M1'', ''M2''), 8 / 10), ((''M2'', ''M1''), 8 / 10),
                    ((''M1'', ''M3''), 1 / 10), ((''M3'', ''M1''), 1 / 10),
                    ((''M2'', ''M3''), 5 / 10), ((''M3'', ''M2''), 5 / 10)]\<rparr>"

definition ex_courses :: "course_row list" where
  "ex_courses =
     [\<lparr>course_id = ''C1'', name = ''Pine Hills'', city = ''Austin'', state = ''TX'',
       tier_required = ''standard''\<rparr>,
      \<lparr>course_id = ''C2'', name = ''Royal Links'', city = ''Dallas'', state = ''TX'',
       tier_required = ''premium''\<rparr>,
      \<lparr>course_id = ''C3'', name = ''Lake View'', city = ''Tulsa'', state = ''OK'',
       tier_required = ''standard''\<rparr>]"

definition ex_store :: model_data where
  "ex_store =
     \<lparr>member_course_matrix = ex_matrix, member_similarity_df = ex_similarity,
      members_df = [\<lparr>member_id = ''M1'', tier = ''premium''\<rparr>,
                    \<lparr>member_id = ''M2'', tier = ''standard''\<rparr>],
      courses_df = ex_courses,
      member_names = [''M2'' \<mapsto> ''Bob'']\<rparr>"

text \<open>
  The same store with a stale similarity matrix, computed before \<open>M1\<close> had any
  interaction: it has rows and columns for \<open>M2\<close> and \<open>M3\<close> only.
\<close>

definition ex_store_stale :: model_data where
  "ex_store_stale =
     ex_store\<lparr>member_similarity_df :=
       \<lparr>index = [''M2'', ''M3''], columns = [''M2'', ''M3''],
        cell = table [((''M2'', ''M2''), 1), ((''M3'', ''M3''), 1),
                      ((''M2'', ''M3''), 5 / 10), ((''M3'', ''M2''), 5 / 10)]\<rparr>\<rparr>"

text \<open>The entries the service returns on this store.\<close>

definition ex_entry_C1 :: recommendation where
  "ex_entry_C1 =
     \<lparr>rec_id = ''C1'', rec_name = ''Pine Hills'', rec_city = ''Austin'', rec_state = ''TX'',
      rec_tier_required = ''standard'', score = 17 / 10, reason = ''Played by: Bob''\<rparr>"

definition ex_entry_C2 :: recommendation where
  "ex_entry_C2 =
     \<lparr>rec_id = ''C2'', rec_name = ''Royal Links'', rec_city = ''Dallas'', rec_state = ''TX'',
      rec_tier_required = ''premium'', score = 1 / 10, reason = ''Recommended for you''\<rparr>"

definition ex_entry_C3 :: recommendation where
  "ex_entry_C3 =
     \<lparr>rec_id = ''C3'', rec_name = ''Lake View'', rec_city = ''Tulsa'', rec_state = ''OK'',
      rec_tier_required = ''standard'', score = 8 / 10, reason = ''Played by: Member''\<rparr>"

text \<open>The first two catalog rows as fallback entries.\<close>

definition ex_popular_C1 :: recommendation where
  "ex_popular_C1 =
     \<lparr>rec_id = ''C1'', rec_name = ''Pine Hills'', rec_city = ''Austin'', rec_state = ''TX'',
      rec_tier_required = ''standard'', score = 0, reason = ''Popular course''\<rparr>"

definition ex_popular_C2 :: recommendation where
  "ex_popular_C2 =
     \<lparr>rec_id = ''C2'', rec_name = ''Royal Links'', rec_city = ''Dallas'', rec_state = ''TX'',
      rec_tier_required = ''premium'', score = 0, reason = ''Popular course''\<rparr>"

text \<open>
  A second store with four members, in which three members with a similarity to \<open>M1\<close>
  above 0.3 played \<open>C1\<close>, and the weighted sum for \<open>C1\<close> is 1.625, halfway between two
  two-decimal values.
\<close>

definition ex_club :: model_data where
  "ex_club =
     \<lparr>member_course_matrix =
        \<lparr>index = [''M1'', ''M2'', ''M3'', ''M4''], columns = [''C1'', ''C2'', ''C3'', ''C4''],
         cell = table [((''M1'', ''C3''), 1), ((''M2'', ''C1''), 2), ((''M3'', ''C1''), 1),
                       ((''M3'', ''C2''), 1), ((''M3'', ''C4''), 3), ((''M4'', ''C1''), 1)]\<rparr>,
      member_similarity_df =
        \<lparr>index = [''M1'', ''M2'', ''M3'', ''M4''], columns = [''M1'', ''M2'', ''M3'', ''M4''],
         cell = table [((''M1'', ''M1''), 1), ((''M2'', ''M2''), 1), ((''M3'', ''M3''), 1),
                       ((''M4'', ''M4''), 1),
                       ((''M1'', ''M2''), 5 / 16), ((''M2'', ''M1''), 5 / 16),
                       ((''M1'', ''M3''), 1 / 2), ((''M3'', ''M1''), 1 / 2),
                       ((''M1'', ''M4''), 1 / 2), ((''M4'', ''M1''), 1 / 2)]\<rparr>,
      members_df = [\<lparr>member_id = ''M1'', tier = ''premium''\<rparr>],
      courses_df = ex_courses,
      member_names = [''M2'' \<mapsto> ''Bob'', ''M3'' \<mapsto> ''Cleo'', ''M4'' \<mapsto> ''Dan'']\<rparr>"

definition ex_club_C1 :: recommendation where
  "ex_club_C1 =
     \<lparr>rec_id = ''C1'', rec_name = ''Pine Hills'', rec_city = ''Austin'', rec_state = ''TX'',
      rec_tier_required = ''standard'', score = 162 / 100, reason = ''Played by: Bob, Cleo''\<rparr>"

definition ex_club_C2 :: recommendation where
  "ex_club_C2 =
     \<lparr>rec_id = ''C2'', rec_name = ''Royal Links'', rec_city = ''Dallas'', rec_state = ''TX'',
      rec_tier_required = ''premium'', score = 1 / 2, reason = ''Played by: Cleo''\<rparr>"

section \<open>Notions used in the statements\<close>

text \<open>
  The test applied to a column at lines 65-74: the course is unplayed, has metadata, and
  is not a premium course offered to a member who is not premium.
\<close>

definition eligible :: "model_data \<Rightarrow> bool \<Rightarrow> string set \<Rightarrow> string \<Rightarrow> bool" where
  "eligible md is_premium played c \<longleftrightarrow>
     c \<notin> played \<and>
     (case filter (\<lambda>r. course_id r = c) (courses_df md) of
        [] \<Rightarrow> False
      | course_row # _ \<Rightarrow> \<not> (tier_required course_row = ''premium'' \<and> \<not> is_premium))"

text \<open>The value of \<open>similarities\<close> at line 59 when neither lookup fails.\<close>

definition similarities_of :: "model_data \<Rightarrow> string \<Rightarrow> series" where
  "similarities_of md mid =
     \<lparr>s_index = filter (\<lambda>l. l \<noteq> mid) (index (member_similarity_df md)),
      s_value = (\<lambda>r. cell (member_similarity_df md) r mid)\<rparr>"

text \<open>Lines 48-52: the tier recorded for a member, if the member table has a row for it.\<close>

definition member_tier :: "model_data \<Rightarrow> string \<Rightarrow> string option" where
  "member_tier md mid =
     (case filter (\<lambda>r. member_id r = mid) (members_df md) of
        [] \<Rightarrow> None
      | member_row # _ \<Rightarrow> Some (tier member_row))"

section \<open>The loops\<close>


lemma score_loop_ok:
  "set os \<subseteq> set (s_index sims) \<Longrightarrow> set os \<subseteq> set (index mcm) \<Longrightarrow> c \<in> set (columns mcm) \<Longrightarrow>
   \<exists>v. score_loop mcm sims c os acc = Inr v"
  by (induction os arbitrary: acc) (auto simp: series_get_def loc_def)

lemma set_update_subset: "set (AList.update k v al) \<subseteq> insert (k, v) (set al)"
  by (induction al) auto

lemma scores_loop_Inr:
  "scores_loop md sims ip played cs acc = Inr d \<Longrightarrow> p \<in> set d \<Longrightarrow>
     p \<in> set acc \<or>
     (fst p \<in> set cs \<and> eligible md ip played (fst p) \<and>
      score_loop (member_course_matrix md) sims (fst p) (s_index sims) 0 = Inr (snd p))"
proof (induction cs arbitrary: acc)
  case Nil
  then show ?case by simp
next
  case (Cons c cs)
  show ?case
  proof (cases "eligible md ip played c")
    case False
    then have "scores_loop md sims ip played (c # cs) acc = scores_loop md sims ip played cs acc"
      by (auto simp: eligible_def split: list.splits)
    with Cons show ?thesis by auto
  next
    case True
    then obtain sc where sc: "score_loop (member_course_matrix md) sims c (s_index sims) 0 = Inr sc"
      and rest: "scores_loop md sims ip played cs (AList.update c sc acc) = Inr d"
      using Cons.prems(1) by (auto simp: eligible_def split: list.splits sum.splits if_splits)
    from Cons.IH [OF rest Cons.prems(2)] show ?thesis
    proof
      assume "p \<in> set (AList.update c sc acc)"
      then have "p = (c, sc) \<or> p \<in> set acc" using set_update_subset by fastforce
      then show ?thesis using True sc by auto
    next
      assume "fst p \<in> set cs \<and> eligible md ip played (fst p) \<and>
        score_loop (member_course_matrix md) sims (fst p) (s_index sims) 0 = Inr (snd p)"
      then show ?thesis by simp
    qed
  qed
qed

lemma scores_loop_ok:
  "set cs \<subseteq> set (columns (member_course_matrix md)) \<Longrightarrow>
   set (s_index sims) \<subseteq> set (index (member_course_matrix md)) \<Longrightarrow>
   \<exists>d. scores_loop md sims ip played cs acc = Inr d"
proof (induction cs arbitrary: acc)
  case Nil
  then show ?case by simp
next
  case (Cons c cs)
  then have c: "c \<in> set (columns (member_course_matrix md))" by simp
  obtain sc where "score_loop (member_course_matrix md) sims c (s_index sims) 0 = Inr sc"
    using score_loop_ok [OF subset_refl Cons.prems(2) c] by blast
  with Cons show ?case by (auto split: list.splits)
qed

lemma set_slice_to: "set (slice_to n xs) \<subseteq> set xs"
  by (auto simp: slice_to_def dest: in_set_takeD)

lemma length_slice_to: "0 \<le> n \<Longrightarrow> int (length (slice_to n xs)) \<le> n"
  by (simp add: slice_to_def)

lemma set_sorted_desc: "set (sorted_desc xs) = set xs"
  by (simp add: sorted_desc_def)

lemma similar_loop_Inr:
  "similar_loop md sims c os acc = Inr names \<Longrightarrow>
     names = acc @ map (display_name md)
       (filter (\<lambda>other. 0 < cell (member_course_matrix md) other c \<and> 3 / 10 < s_value sims other) os)"
proof (induction os arbitrary: acc)
  case Nil
  then show ?case by simp
next
  case (Cons other rest)
  let ?keep = "0 < cell (member_course_matrix md) other c \<and> 3 / 10 < s_value sims other"
  from Cons.prems
  have step: "similar_loop md sims c rest
                (if ?keep then acc @ [display_name md other] else acc) = Inr names"
    by (auto simp: series_get_def loc_def display_name_def split: sum.splits if_splits)
  from Cons.IH [OF step] show ?case by simp
qed

lemma similar_loop_ok:
  "set os \<subseteq> set (s_index sims) \<Longrightarrow> set os \<subseteq> set (index (member_course_matrix md)) \<Longrightarrow>
   c \<in> set (columns (member_course_matrix md)) \<Longrightarrow>
   \<exists>names. similar_loop md sims c os acc = Inr names"
  by (induction os arbitrary: acc) (auto simp: series_get_def loc_def)

lemma result_entry_Inr:
  assumes "result_entry md sims c sc = Inr r"
  shows "rec_id r = c" and "score r = py_round sc 2"
    and "\<exists>course_info rest. filter (\<lambda>x. course_id x = c) (courses_df md) = course_info # rest \<and>
           rec_tier_required r = tier_required course_info \<and> rec_name r = name course_info \<and>
           rec_city r = city course_info \<and> rec_state r = state course_info"
    and "reason r = reason_of (map (display_name md)
           (filter (\<lambda>other. 0 < cell (member_course_matrix md) other c \<and> 3 / 10 < s_value sims other)
              (s_index sims)))"
proof -
  from assms obtain course_info rest names where
    f: "filter (\<lambda>x. course_id x = c) (courses_df md) = course_info # rest" and
    n: "similar_loop md sims c (s_index sims) [] = Inr names" and
    r: "r = \<lparr>rec_id = c, rec_name = name course_info, rec_city = city course_info,
              rec_state = state course_info, rec_tier_required = tier_required course_info,
              score = py_round sc 2, reason = reason_of names\<rparr>"
    unfolding result_entry_def by (simp split: list.splits sum.splits)
  show "rec_id r = c" and "score r = py_round sc 2" by (simp_all add: r)
  show "\<exists>course_info rest. filter (\<lambda>x. course_id x = c) (courses_df md) = course_info # rest \<and>
           rec_tier_required r = tier_required course_info \<and> rec_name r = name course_info \<and>
           rec_city r = city course_info \<and> rec_state r = state course_info"
    using f by (simp add: r)
  show "reason r = reason_of (map (display_name md)
           (filter (\<lambda>other. 0 < cell (member_course_matrix md) other c \<and> 3 / 10 < s_value sims other)
              (s_index sims)))"
    using similar_loop_Inr [OF n] by (simp add: r)
qed

lemma result_entry_ok:
  assumes "filter (\<lambda>x. course_id x = c) (courses_df md) \<noteq> []"
    and "set (s_index sims) \<subseteq> set (index (member_course_matrix md))"
    and "c \<in> set (columns (member_course_matrix md))"
  shows "\<exists>r. result_entry md sims c sc = Inr r"
proof -
  obtain names where "similar_loop md sims c (s_index sims) [] = Inr names"
    using similar_loop_ok [OF subset_refl assms(2,3)] by blast
  with assms(1) show ?thesis by (auto simp: result_entry_def split: list.splits)
qed

lemma results_loop_Inr:
  "results_loop md sims ps acc = Inr rs \<Longrightarrow>
     length rs = length acc + length ps \<and>
     (\<forall>r\<in>set rs. r \<in> set acc \<or> (\<exists>p\<in>set ps. result_entry md sims (fst p) (snd p) = Inr r))"
proof (induction ps arbitrary: acc)
  case Nil
  then show ?case by simp
next
  case (Cons p ps)
  obtain c sc where p: "p = (c, sc)" by (cases p)
  from Cons.prems obtain entry where entry: "result_entry md sims c sc = Inr entry"
    and rest: "results_loop md sims ps (acc @ [entry]) = Inr rs"
    by (auto simp: p split: sum.splits)
  from Cons.IH [OF rest] entry show ?case by (auto simp: p)
qed

lemma results_loop_ok:
  "(\<forall>p\<in>set ps. \<exists>r. result_entry md sims (fst p) (snd p) = Inr r) \<Longrightarrow>
   \<exists>rs. results_loop md sims ps acc = Inr rs"
proof (induction ps arbitrary: acc)
  case Nil
  then show ?case by simp
next
  case (Cons p ps)
  obtain c sc where p: "p = (c, sc)" by (cases p)
  from Cons.prems obtain entry where "result_entry md sims c sc = Inr entry"
    by (auto simp: p)
  with Cons show ?case by (auto simp: p)
qed

lemma similarities_ok:
  "getitem_column (member_similarity_df md) mid = Inr col \<Longrightarrow> drop_label col mid = Inr sims \<Longrightarrow>
   sims = similarities_of md mid"
  by (auto simp: getitem_column_def drop_label_def similarities_of_def split: if_splits)

lemma scoring_path:
  assumes "get_recommendations md mid n = Inr rs"
    and "mid \<in> set (index (member_course_matrix md))"
  shows "(member_tier md mid = None \<and> rs = []) \<or>
         (\<exists>t d. member_tier md mid = Some t \<and>
            scores_loop md (similarities_of md mid) (t = ''premium'') (played_courses_of md mid)
              (columns (member_course_matrix md)) [] = Inr d \<and>
            results_loop md (similarities_of md mid) (slice_to n (sorted_desc d)) [] = Inr rs)"
proof (cases "filter (\<lambda>r. member_id r = mid) (members_df md)")
  case Nil
  with assms show ?thesis by (simp add: get_recommendations_def member_tier_def)
next
  case (Cons row rest)
  have run: "get_recommendations md mid n =
      (case getitem_column (member_similarity_df md) mid of
         Inl e \<Rightarrow> Inl e
       | Inr col \<Rightarrow>
           (case drop_label col mid of
              Inl e \<Rightarrow> Inl e
            | Inr sims \<Rightarrow>
                (case scores_loop md sims (tier row = ''premium'') (played_courses_of md mid)
                        (columns (member_course_matrix md)) [] of
                   Inl e \<Rightarrow> Inl e
                 | Inr d \<Rightarrow> results_loop md sims (slice_to n (sorted_desc d)) [])))"
    using assms(2) Cons by (simp add: get_recommendations_def)
  from assms(1) have run_rs: "(case getitem_column (member_similarity_df md) mid of
         Inl e \<Rightarrow> Inl e
       | Inr col \<Rightarrow>
           (case drop_label col mid of
              Inl e \<Rightarrow> Inl e
            | Inr sims \<Rightarrow>
                (case scores_loop md sims (tier row = ''premium'') (played_courses_of md mid)
                        (columns (member_course_matrix md)) [] of
                   Inl e \<Rightarrow> Inl e
                 | Inr d \<Rightarrow> results_loop md sims (slice_to n (sorted_desc d)) []))) = Inr rs"
    by (simp only: run)
  then obtain col where
    col: "getitem_column (member_similarity_df md) mid = Inr col" and
    after_col: "(case drop_label col mid of
              Inl e \<Rightarrow> Inl e
            | Inr sims \<Rightarrow>
                (case scores_loop md sims (tier row = ''premium'') (played_courses_of md mid)
                        (columns (member_course_matrix md)) [] of
                   Inl e \<Rightarrow> Inl e
                 | Inr d \<Rightarrow> results_loop md sims (slice_to n (sorted_desc d)) [])) = Inr rs"
    by (cases "getitem_column (member_similarity_df md) mid") simp_all
  then obtain sims where sims: "drop_label col mid = Inr sims" and
    after_sims: "(case scores_loop md sims (tier row = ''premium'') (played_courses_of md mid)
                        (columns (member_course_matrix md)) [] of
                   Inl e \<Rightarrow> Inl e
                 | Inr d \<Rightarrow> results_loop md sims (slice_to n (sorted_desc d)) []) = Inr rs"
    by (cases "drop_label col mid") simp_all
  have eq: "sims = similarities_of md mid" using col sims by (rule similarities_ok)
  from after_sims obtain d where
    d: "scores_loop md sims (tier row = ''premium'') (played_courses_of md mid)
          (columns (member_course_matrix md)) [] = Inr d" and
    rs: "results_loop md sims (slice_to n (sorted_desc d)) [] = Inr rs"
    by (cases "scores_loop md sims (tier row = ''premium'') (played_courses_of md mid)
          (columns (member_course_matrix md)) []") simp_all
  have "member_tier md mid = Some (tier row)" using Cons by (simp add: member_tier_def)
  with d rs eq show ?thesis by blast
qed

lemma scoring_entry:
  assumes "get_recommendations md mid n = Inr rs"
    and "mid \<in> set (index (member_course_matrix md))"
    and "r \<in> set rs"
  shows "\<exists>t sc. member_tier md mid = Some t \<and>
           rec_id r \<in> set (columns (member_course_matrix md)) \<and>
           eligible md (t = ''premium'') (played_courses_of md mid) (rec_id r) \<and>
           score_loop (member_course_matrix md) (similarities_of md mid) (rec_id r)
             (s_index (similarities_of md mid)) 0 = Inr sc \<and>
           result_entry md (similarities_of md mid) (rec_id r) sc = Inr r"
proof -
  have nonempty: "rs \<noteq> []" using assms(3) by (cases rs) simp_all
  from scoring_path [OF assms(1,2)] have
    "\<exists>t d. member_tier md mid = Some t \<and>
            scores_loop md (similarities_of md mid) (t = ''premium'') (played_courses_of md mid)
              (columns (member_course_matrix md)) [] = Inr d \<and>
            results_loop md (similarities_of md mid) (slice_to n (sorted_desc d)) [] = Inr rs"
  proof (elim disjE conjE)
    assume "rs = []"
    with nonempty show ?thesis by simp
  next
    assume "\<exists>t d. member_tier md mid = Some t \<and>
            scores_loop md (similarities_of md mid) (t = ''premium'') (played_courses_of md mid)
              (columns (member_course_matrix md)) [] = Inr d \<and>
            results_loop md (similarities_of md mid) (slice_to n (sorted_desc d)) [] = Inr rs"
    then show ?thesis .
  qed
  then obtain t d where
    t: "member_tier md mid = Some t" and
    d: "scores_loop md (similarities_of md mid) (t = ''premium'') (played_courses_of md mid)
          (columns (member_course_matrix md)) [] = Inr d" and
    rs: "results_loop md (similarities_of md mid) (slice_to n (sorted_desc d)) [] = Inr rs"
    by (elim exE conjE)
  from results_loop_Inr [OF rs] have
    "\<forall>r\<in>set rs. r \<in> set [] \<or> (\<exists>p\<in>set (slice_to n (sorted_desc d)).
        result_entry md (similarities_of md mid) (fst p) (snd p) = Inr r)"
    by (rule conjunct2)
  from bspec [OF this assms(3)] have
    "\<exists>p\<in>set (slice_to n (sorted_desc d)).
        result_entry md (similarities_of md mid) (fst p) (snd p) = Inr r"
    by simp
  then obtain p where
    p: "p \<in> set (slice_to n (sorted_desc d))" and
    entry: "result_entry md (similarities_of md mid) (fst p) (snd p) = Inr r"
    by (elim bexE)
  have "p \<in> set (sorted_desc d)" using set_slice_to p by (rule subsetD)
  then have pd: "p \<in> set d" by (simp only: set_sorted_desc)
  have id: "rec_id r = fst p" using entry by (rule result_entry_Inr(1))
  from scores_loop_Inr [OF d pd] have
    "fst p \<in> set (columns (member_course_matrix md)) \<and>
     eligible md (t = ''premium'') (played_courses_of md mid) (fst p) \<and>
     score_loop (member_course_matrix md) (similarities_of md mid) (fst p)
       (s_index (similarities_of md mid)) 0 = Inr (snd p)"
    by simp
  then have "member_tier md mid = Some t \<and>
           rec_id r \<in> set (columns (member_course_matrix md)) \<and>
           eligible md (t = ''premium'') (played_courses_of md mid) (rec_id r) \<and>
           score_loop (member_course_matrix md) (similarities_of md mid) (rec_id r)
             (s_index (similarities_of md mid)) 0 = Inr (snd p) \<and>
           result_entry md (similarities_of md mid) (rec_id r) (snd p) = Inr r"
    using t entry by (simp only: id simp_thms)
  then show ?thesis by (intro exI)
qed

section \<open>Evaluation on the small store\<close>

lemmas ex_defs = ex_store_def ex_matrix_def ex_similarity_def ex_courses_def table_def
  ex_store_stale_def ex_entry_C1_def ex_entry_C2_def ex_entry_C3_def
  ex_popular_C1_def ex_popular_C2_def

lemmas run_defs = get_recommendations_def get_popular_courses_def popular_entry_def slice_to_def
  sorted_desc_def getitem_column_def drop_label_def series_get_def loc_def py_round_def
  round_half_even_def reason_of_def result_entry_def display_name_def played_courses_of_def

lemma ex_run_M1: "get_recommendations ex_store ''M1'' 5 = Inr [ex_entry_C1, ex_entry_C2]"
  by (simp add: ex_defs run_defs)

lemma ex_run_M2: "get_recommendations ex_store ''M2'' 5 = Inr [ex_entry_C3]"
  by (simp add: ex_defs run_defs)

lemma ex_M1_known: "''M1'' \<in> set (index (member_course_matrix ex_store))"
  by (simp add: ex_store_def ex_matrix_def)

lemma ex_M2_known: "''M2'' \<in> set (index (member_course_matrix ex_store))"
  by (simp add: ex_store_def ex_matrix_def)

lemma ex_run_club: "get_recommendations ex_club ''M1'' 5 = Inr [ex_club_C1, ex_club_C2]"
  by (simp add: ex_club_def ex_club_C1_def ex_club_C2_def ex_courses_def table_def run_defs)

lemma ex_club_known: "''M1'' \<in> set (index (member_course_matrix ex_club))"
  by (simp add: ex_club_def)

section \<open>Members the model does not know, or knows only in part\<close>

text \<open>
  C9. A member id that labels a row of the interaction matrix but has no row in the
  member table gets the empty list, whatever count is requested.
\<close>

theorem member_without_row_gets_nothing:
  assumes "mid \<in> set (index (member_course_matrix md))"
    and "mid \<notin> member_id ` set (members_df md)"
  shows "get_recommendations md mid n = Inr []"
proof -
  have "filter (\<lambda>r. member_id r = mid) (members_df md) = []"
    using assms(2) by (simp add: filter_empty_conv image_iff) metis
  with assms(1) show ?thesis by (simp add: get_recommendations_def)
qed

theorem member_without_row_gets_nothing_witness:
  "''M3'' \<in> set (index (member_course_matrix ex_store)) \<and>
   ''M3'' \<notin> member_id ` set (members_df ex_store) \<and>
   get_recommendations ex_store ''M3'' 5 = Inr []"
proof -
  have a: "''M3'' \<in> set (index (member_course_matrix ex_store))"
    by (simp add: ex_store_def ex_matrix_def)
  have b: "''M3'' \<notin> member_id ` set (members_df ex_store)"
    by (simp add: ex_store_def)
  from a b member_without_row_gets_nothing [OF a b, of 5] show ?thesis by simp
qed

text \<open>
  C10. The fallback does not depend on the member id: two ids that are both absent from
  the index of the interaction matrix get the same answer for the same requested count.
\<close>

theorem fallback_ignores_member_id:
  assumes "a \<notin> set (index (member_course_matrix md))"
    and "b \<notin> set (index (member_course_matrix md))"
  shows "get_recommendations md a n = get_recommendations md b n"
  using assms by (simp add: get_recommendations_def get_popular_courses_def)

theorem fallback_ignores_member_id_witness:
  "''M8'' \<notin> set (index (member_course_matrix ex_store)) \<and>
   ''M9'' \<notin> set (index (member_course_matrix ex_store)) \<and>
   get_recommendations ex_store ''M8'' 2 = get_recommendations ex_store ''M9'' 2"
proof -
  have a: "''M8'' \<notin> set (index (member_course_matrix ex_store))"
    by (simp add: ex_store_def ex_matrix_def)
  have b: "''M9'' \<notin> set (index (member_course_matrix ex_store))"
    by (simp add: ex_store_def ex_matrix_def)
  from a b fallback_ignores_member_id [OF a b, of 2] show ?thesis by simp
qed

section \<open>The scoring path\<close>






text \<open>
  C4. For a member that labels a row of the interaction matrix, a course whose play
  count for that member is strictly positive is the id of no returned entry, whatever
  count is requested.
\<close>

theorem played_course_not_recommended:
  assumes "get_recommendations md mid n = Inr rs"
    and "mid \<in> set (index (member_course_matrix md))"
    and "0 < cell (member_course_matrix md) mid c"
  shows "c \<notin> rec_id ` set rs"
proof
  assume "c \<in> rec_id ` set rs"
  then obtain r where r: "r \<in> set rs" and c: "c = rec_id r" by (elim imageE)
  from scoring_entry [OF assms(1,2) r] obtain t sc where
    "member_tier md mid = Some t" and
    col: "rec_id r \<in> set (columns (member_course_matrix md))" and
    el: "eligible md (t = ''premium'') (played_courses_of md mid) (rec_id r)" and
    "score_loop (member_course_matrix md) (similarities_of md mid) (rec_id r)
           (s_index (similarities_of md mid)) 0 = Inr sc" and
    "result_entry md (similarities_of md mid) (rec_id r) sc = Inr r"
    by (elim exE conjE)
  from el have "rec_id r \<notin> played_courses_of md mid" unfolding eligible_def by (rule conjunct1)
  moreover have "rec_id r \<in> played_courses_of md mid"
    using col assms(3) by (simp add: played_courses_of_def c)
  ultimately show False by simp
qed

theorem played_course_not_recommended_witness:
  "get_recommendations ex_store ''M1'' 5 = Inr [ex_entry_C1, ex_entry_C2] \<and>
   ''M1'' \<in> set (index (member_course_matrix ex_store)) \<and>
   0 < cell (member_course_matrix ex_store) ''M1'' ''C3'' \<and>
   ''C3'' \<notin> rec_id ` set [ex_entry_C1, ex_entry_C2]"
proof -
  have p: "0 < cell (member_course_matrix ex_store) ''M1'' ''C3''"
    by (simp add: ex_store_def ex_matrix_def table_def)
  from played_course_not_recommended [OF ex_run_M1 ex_M1_known p] ex_run_M1 ex_M1_known p
  show ?thesis by (intro conjI)
qed

lemma filter_Cons_first:
  assumes "filter P xs = x # rest"
  shows "x \<in> set xs \<and> P x"
proof -
  have "x \<in> set (filter P xs)" by (simp add: assms)
  then show ?thesis by simp
qed

lemma gate_excludes: "\<not> (A \<and> \<not> B) \<Longrightarrow> \<not> B \<Longrightarrow> \<not> A"
  by blast

text \<open>
  C3. For a member that labels a row of the interaction matrix and whose recorded tier
  is not \<open>premium\<close>, no returned entry has \<open>tier_required\<close> equal to \<open>premium\<close>,
  whatever count is requested.
\<close>

theorem non_premium_member_never_sees_premium:
  assumes "get_recommendations md mid n = Inr rs"
    and "mid \<in> set (index (member_course_matrix md))"
    and "member_tier md mid \<noteq> Some ''premium''"
    and "r \<in> set rs"
  shows "rec_tier_required r \<noteq> ''premium''"
proof -
  from scoring_entry [OF assms(1,2,4)] obtain t sc where
    t: "member_tier md mid = Some t" and
    "rec_id r \<in> set (columns (member_course_matrix md))" and
    el: "eligible md (t = ''premium'') (played_courses_of md mid) (rec_id r)" and
    "score_loop (member_course_matrix md) (similarities_of md mid) (rec_id r)
           (s_index (similarities_of md mid)) 0 = Inr sc" and
    entry: "result_entry md (similarities_of md mid) (rec_id r) sc = Inr r"
    by (elim exE conjE)
  have np: "\<not> (t = ''premium'')" using assms(3) t by simp
  from result_entry_Inr(3) [OF entry] obtain course_info rest where
    f: "filter (\<lambda>x. course_id x = rec_id r) (courses_df md) = course_info # rest" and
    tr: "rec_tier_required r = tier_required course_info"
    by (elim exE conjE)
  from el have "\<not> (tier_required course_info = ''premium'' \<and> \<not> (t = ''premium''))"
    unfolding eligible_def by (simp only: f list.case simp_thms)
  then have "tier_required course_info \<noteq> ''premium''" using np by (rule gate_excludes)
  then show ?thesis by (simp add: tr)
qed

theorem non_premium_member_never_sees_premium_witness:
  "get_recommendations ex_store ''M2'' 5 = Inr [ex_entry_C3] \<and>
   ''M2'' \<in> set (index (member_course_matrix ex_store)) \<and>
   member_tier ex_store ''M2'' \<noteq> Some ''premium'' \<and>
   ex_entry_C3 \<in> set [ex_entry_C3] \<and>
   rec_tier_required ex_entry_C3 \<noteq> ''premium''"
proof -
  have t: "member_tier ex_store ''M2'' \<noteq> Some ''premium''"
    by (simp add: member_tier_def ex_store_def)
  have c: "ex_entry_C3 \<in> set [ex_entry_C3]" by simp
  from non_premium_member_never_sees_premium [OF ex_run_M2 ex_M2_known t c]
    ex_run_M2 ex_M2_known t c
  show ?thesis by (intro conjI)
qed

text \<open>
  C7. Every course id returned by the scoring path is a column of the interaction
  matrix that has a row in the course table; a column without course metadata is
  therefore never returned.
\<close>

theorem recommended_course_has_metadata:
  assumes "get_recommendations md mid n = Inr rs"
    and "mid \<in> set (index (member_course_matrix md))"
    and "r \<in> set rs"
  shows "rec_id r \<in> set (columns (member_course_matrix md)) \<and>
         rec_id r \<in> course_id ` set (courses_df md)"
proof -
  from scoring_entry [OF assms] obtain t sc where
    "member_tier md mid = Some t" and
    col: "rec_id r \<in> set (columns (member_course_matrix md))" and
    "eligible md (t = ''premium'') (played_courses_of md mid) (rec_id r)" and
    "score_loop (member_course_matrix md) (similarities_of md mid) (rec_id r)
           (s_index (similarities_of md mid)) 0 = Inr sc" and
    entry: "result_entry md (similarities_of md mid) (rec_id r) sc = Inr r"
    by (elim exE conjE)
  from result_entry_Inr(3) [OF entry] obtain course_info rest where
    f: "filter (\<lambda>x. course_id x = rec_id r) (courses_df md) = course_info # rest" and
    "rec_tier_required r = tier_required course_info" and
    "rec_name r = name course_info" and "rec_city r = city course_info" and
    "rec_state r = state course_info"
    by (elim exE conjE)
  from filter_Cons_first [OF f] have "course_info \<in> set (courses_df md)"
    and "course_id course_info = rec_id r" by simp_all
  then have "rec_id r \<in> course_id ` set (courses_df md)" by (metis imageI)
  with col show ?thesis by (rule conjI)
qed

theorem recommended_course_has_metadata_witness:
  "get_recommendations ex_store ''M1'' 5 = Inr [ex_entry_C1, ex_entry_C2] \<and>
   ''M1'' \<in> set (index (member_course_matrix ex_store)) \<and>
   ex_entry_C2 \<in> set [ex_entry_C1, ex_entry_C2] \<and>
   ''C4'' \<in> set (columns (member_course_matrix ex_store)) \<and>
   ''C4'' \<notin> course_id ` set (courses_df ex_store) \<and>
   rec_id ex_entry_C2 \<in> set (columns (member_course_matrix ex_store)) \<and>
   rec_id ex_entry_C2 \<in> course_id ` set (courses_df ex_store)"
proof -
  have c: "ex_entry_C2 \<in> set [ex_entry_C1, ex_entry_C2]" by simp
  have k: "''C4'' \<in> set (columns (member_course_matrix ex_store))"
    by (simp add: ex_store_def ex_matrix_def)
  have u: "''C4'' \<notin> course_id ` set (courses_df ex_store)"
    by (simp add: ex_store_def ex_courses_def)
  from recommended_course_has_metadata [OF ex_run_M1 ex_M1_known c] ex_run_M1 ex_M1_known c k u
  show ?thesis by (intro conjI) simp_all
qed

text \<open>The three shapes of the explanation at line 96.\<close>

lemma reason_of_rendering:
  "reason_of names =
     (case names of
        [] \<Rightarrow> ''Recommended for you''
      | [a] \<Rightarrow> ''Played by: '' @ a
      | a # b # rest \<Rightarrow> ''Played by: '' @ a @ '', '' @ b)"
proof (cases names)
  case Nil
  then show ?thesis by (simp add: reason_of_def)
next
  case (Cons a tl)
  then show ?thesis by (cases tl) (simp_all add: reason_of_def)
qed

text \<open>
  C8. For every entry of the scoring path the reason is \<open>Played by: \<close> followed by the
  first two, at most, display names, in the order of the similarity vector, of the other
  members who played the course and whose similarity to the member exceeds 0.3, joined
  by a comma and a space; when there is no such member the reason is
  \<open>Recommended for you\<close>. The display name of a member is its entry in the name
  dictionary, or \<open>Member\<close> when it has none.
\<close>

theorem reason_names_similar_players:
  assumes "get_recommendations md mid n = Inr rs"
    and "mid \<in> set (index (member_course_matrix md))"
    and "r \<in> set rs"
  shows "reason r =
     (case map (\<lambda>other. case member_names md other of None \<Rightarrow> ''Member'' | Some nm \<Rightarrow> nm)
             (filter (\<lambda>other. 0 < cell (member_course_matrix md) other (rec_id r) \<and>
                               3 / 10 < cell (member_similarity_df md) other mid)
                (filter (\<lambda>l. l \<noteq> mid) (index (member_similarity_df md)))) of
        [] \<Rightarrow> ''Recommended for you''
      | [a] \<Rightarrow> ''Played by: '' @ a
      | a # b # rest \<Rightarrow> ''Played by: '' @ a @ '', '' @ b)"
proof -
  from scoring_entry [OF assms] obtain t sc where
    entry: "result_entry md (similarities_of md mid) (rec_id r) sc = Inr r"
    by (elim exE conjE)
  have dn: "display_name md =
      (\<lambda>other. case member_names md other of None \<Rightarrow> ''Member'' | Some nm \<Rightarrow> nm)"
    by (rule ext) (simp add: display_name_def)
  have sims: "s_index (similarities_of md mid) =
        filter (\<lambda>l. l \<noteq> mid) (index (member_similarity_df md))"
      "s_value (similarities_of md mid) = (\<lambda>other. cell (member_similarity_df md) other mid)"
    by (simp_all add: similarities_of_def)
  from result_entry_Inr(4) [OF entry] show ?thesis
    unfolding reason_of_rendering dn sims .
qed

theorem reason_names_similar_players_witness:
  "get_recommendations ex_club ''M1'' 5 = Inr [ex_club_C1, ex_club_C2] \<and>
   ''M1'' \<in> set (index (member_course_matrix ex_club)) \<and>
   ex_club_C1 \<in> set [ex_club_C1, ex_club_C2] \<and>
   reason ex_club_C1 = ''Played by: Bob, Cleo'' \<and>
   reason ex_club_C1 =
     (case map (\<lambda>other. case member_names ex_club other of None \<Rightarrow> ''Member'' | Some nm \<Rightarrow> nm)
             (filter (\<lambda>other. 0 < cell (member_course_matrix ex_club) other (rec_id ex_club_C1) \<and>
                               3 / 10 < cell (member_similarity_df ex_club) other ''M1'')
                (filter (\<lambda>l. l \<noteq> ''M1'') (index (member_similarity_df ex_club)))) of
        [] \<Rightarrow> ''Recommended for you''
      | [a] \<Rightarrow> ''Played by: '' @ a
      | a # b # rest \<Rightarrow> ''Played by: '' @ a @ '', '' @ b)"
proof -
  have c: "ex_club_C1 \<in> set [ex_club_C1, ex_club_C2]" by simp
  have s: "reason ex_club_C1 = ''Played by: Bob, Cleo''" by (simp add: ex_club_C1_def)
  from reason_names_similar_players [OF ex_run_club ex_club_known c] ex_run_club ex_club_known c s
  show ?thesis by (intro conjI)
qed

section \<open>The fallback and the requested count\<close>

text \<open>
  C2, as the code has it. A member id that labels no row of the interaction matrix
  takes the fallback path, which is not an error: the answer is \<^verbatim>\<open>courses_df.head(n)\<close>
  in stored order, each row with score 0 and the reason \<open>Popular course\<close>. That is the
  first \<open>n\<close> rows of the catalog when \<open>n\<close> is not negative, and all but the last \<open>-n\<close>
  rows when it is.
\<close>

theorem unknown_member_gets_fallback:
  assumes "mid \<notin> set (index (member_course_matrix md))"
  shows "get_recommendations md mid n =
     Inr (map (\<lambda>course.
                 \<lparr>rec_id = course_id course, rec_name = name course, rec_city = city course,
                  rec_state = state course, rec_tier_required = tier_required course,
                  score = 0, reason = ''Popular course''\<rparr>)
            (take (if 0 \<le> n then nat n else length (courses_df md) - nat (- n))
               (courses_df md)))"
  using assms
  by (simp add: get_recommendations_def get_popular_courses_def popular_entry_def slice_to_def)

theorem unknown_member_gets_fallback_witness:
  "''M9'' \<notin> set (index (member_course_matrix ex_store)) \<and>
   get_recommendations ex_store ''M9'' 2 = Inr [ex_popular_C1, ex_popular_C2]"
proof -
  have a: "''M9'' \<notin> set (index (member_course_matrix ex_store))"
    by (simp add: ex_store_def ex_matrix_def)
  from unknown_member_gets_fallback [OF a, of 2]
  have "get_recommendations ex_store ''M9'' 2 = Inr [ex_popular_C1, ex_popular_C2]"
    by (simp add: ex_store_def ex_courses_def ex_popular_C1_def ex_popular_C2_def)
  with a show ?thesis by (rule conjI)
qed

text \<open>
  C2 as stated promises up to \<open>n\<close> courses. With \<open>n = -1\<close> and a catalog of three
  courses, the fallback returns two.
\<close>

theorem fallback_exceeds_negative_count:
  "''M9'' \<notin> set (index (member_course_matrix ex_store)) \<and>
   get_recommendations ex_store ''M9'' (- 1) = Inr [ex_popular_C1, ex_popular_C2] \<and>
   \<not> int (length [ex_popular_C1, ex_popular_C2]) \<le> - 1"
  by (simp add: ex_defs run_defs)

text \<open>
  C6, as the code has it. For a requested count that is not negative, the returned list,
  from the scoring path or from the fallback, has at most that many entries.
\<close>

theorem length_at_most_limit:
  assumes "get_recommendations md mid limit = Inr rs"
    and "0 \<le> limit"
  shows "int (length rs) \<le> limit"
proof (cases "mid \<in> set (index (member_course_matrix md))")
  case False
  with assms(1) have "rs = map popular_entry (slice_to limit (courses_df md))"
    by (simp add: get_recommendations_def get_popular_courses_def)
  then show ?thesis using length_slice_to [OF assms(2)] by simp
next
  case True
  from scoring_path [OF assms(1) True] show ?thesis
  proof (elim disjE conjE exE)
    assume "rs = []"
    then show ?thesis using assms(2) by simp
  next
    fix t d
    assume "results_loop md (similarities_of md mid) (slice_to limit (sorted_desc d)) [] = Inr rs"
    from results_loop_Inr [OF this]
    have "length rs = length (slice_to limit (sorted_desc d))" by simp
    then show ?thesis using length_slice_to [OF assms(2)] by simp
  qed
qed

theorem length_at_most_limit_witness:
  "get_recommendations ex_store ''M1'' 1 = Inr [ex_entry_C1] \<and> (0::int) \<le> 1 \<and>
   int (length [ex_entry_C1]) \<le> 1"
proof -
  have run: "get_recommendations ex_store ''M1'' 1 = Inr [ex_entry_C1]"
    by (simp add: ex_defs run_defs)
  have nn: "(0::int) \<le> 1" by simp
  from length_at_most_limit [OF run nn] run nn show ?thesis by (intro conjI)
qed

text \<open>
  C6 as stated bounds the length by \<open>limit\<close> for every value of \<open>limit\<close>. With
  \<open>limit = -1\<close> the slice at line 84 drops the last of the two scored courses of \<open>M1\<close>
  and one entry is returned.
\<close>

theorem scoring_exceeds_negative_limit:
  "get_recommendations ex_store ''M1'' (- 1) = Inr [ex_entry_C1] \<and>
   \<not> int (length [ex_entry_C1]) \<le> - 1"
  by (simp add: ex_defs run_defs)

section \<open>Errors\<close>

lemma get_recommendations_known:
  assumes "mid \<in> set (index (member_course_matrix md))"
    and "filter (\<lambda>r. member_id r = mid) (members_df md) = row # rest"
  shows "get_recommendations md mid n =
      (case getitem_column (member_similarity_df md) mid of
         Inl e \<Rightarrow> Inl e
       | Inr col \<Rightarrow>
           (case drop_label col mid of
              Inl e \<Rightarrow> Inl e
            | Inr sims \<Rightarrow>
                (case scores_loop md sims (tier row = ''premium'') (played_courses_of md mid)
                        (columns (member_course_matrix md)) [] of
                   Inl e \<Rightarrow> Inl e
                 | Inr d \<Rightarrow> results_loop md sims (slice_to n (sorted_desc d)) [])))"
  using assms by (simp add: get_recommendations_def)

lemma eligible_has_metadata:
  "eligible md ip played c \<Longrightarrow> filter (\<lambda>x. course_id x = c) (courses_df md) \<noteq> []"
  unfolding eligible_def by (cases "filter (\<lambda>x. course_id x = c) (courses_df md)") simp_all

text \<open>
  C5, as the code has it. When the similarity matrix has a row for exactly the members
  of the interaction matrix and a column for each of them, get_recommendations raises
  no error for any member id and any requested count: an unknown member, a member
  without a row in the member table and a column without course metadata all lead to
  a returned list.
\<close>

theorem no_error_when_similarity_matches_matrix:
  assumes rows: "set (index (member_similarity_df md)) = set (index (member_course_matrix md))"
    and cols: "set (index (member_course_matrix md)) \<subseteq> set (columns (member_similarity_df md))"
  shows "\<exists>rs. get_recommendations md mid n = Inr rs"
proof (cases "mid \<in> set (index (member_course_matrix md))")
  case False
  then show ?thesis by (simp add: get_recommendations_def)
next
  case True
  show ?thesis
  proof (cases "filter (\<lambda>r. member_id r = mid) (members_df md)")
    case Nil
    with True show ?thesis by (simp add: get_recommendations_def)
  next
    case (Cons row rest)
    let ?sims = "similarities_of md mid"
    let ?ip = "tier row = ''premium''"
    have in_cols: "mid \<in> set (columns (member_similarity_df md))" using cols True by (rule subsetD)
    have in_rows: "mid \<in> set (index (member_similarity_df md))" using True rows by simp
    have col: "getitem_column (member_similarity_df md) mid =
        Inr \<lparr>s_index = index (member_similarity_df md),
             s_value = (\<lambda>r. cell (member_similarity_df md) r mid)\<rparr>"
      using in_cols by (simp add: getitem_column_def)
    have drp: "drop_label \<lparr>s_index = index (member_similarity_df md),
             s_value = (\<lambda>r. cell (member_similarity_df md) r mid)\<rparr> mid = Inr ?sims"
      using in_rows by (simp add: drop_label_def similarities_of_def)
    have others: "set (s_index ?sims) \<subseteq> set (index (member_course_matrix md))"
      using rows by (auto simp: similarities_of_def)
    obtain d where d: "scores_loop md ?sims ?ip (played_courses_of md mid)
        (columns (member_course_matrix md)) [] = Inr d"
      using scores_loop_ok [where ip = "?ip" and played = "played_courses_of md mid"
          and acc = "[]", OF subset_refl others]
      by (elim exE)
    have "\<forall>p\<in>set (slice_to n (sorted_desc d)). \<exists>r. result_entry md ?sims (fst p) (snd p) = Inr r"
    proof
      fix p assume "p \<in> set (slice_to n (sorted_desc d))"
      with set_slice_to have "p \<in> set (sorted_desc d)" by (rule subsetD)
      then have "p \<in> set d" by (simp only: set_sorted_desc)
      from scores_loop_Inr [OF d this] have
        c: "fst p \<in> set (columns (member_course_matrix md))" and
        e: "eligible md ?ip (played_courses_of md mid) (fst p)"
        by simp_all
      from result_entry_ok [OF eligible_has_metadata [OF e] others c]
      show "\<exists>r. result_entry md ?sims (fst p) (snd p) = Inr r" .
    qed
    from results_loop_ok [where acc = "[]", OF this] obtain rs where
      "results_loop md ?sims (slice_to n (sorted_desc d)) [] = Inr rs" by (elim exE)
    then have "get_recommendations md mid n = Inr rs"
      by (simp add: get_recommendations_known [OF True Cons] col drp d)
    then show ?thesis by (rule exI)
  qed
qed

theorem no_error_when_similarity_matches_matrix_witness:
  "set (index (member_similarity_df ex_store)) = set (index (member_course_matrix ex_store)) \<and>
   set (index (member_course_matrix ex_store)) \<subseteq> set (columns (member_similarity_df ex_store)) \<and>
   (\<exists>rs. get_recommendations ex_store ''M1'' 5 = Inr rs)"
proof -
  have rows: "set (index (member_similarity_df ex_store)) = set (index (member_course_matrix ex_store))"
    by (simp add: ex_store_def ex_matrix_def ex_similarity_def)
  have cols: "set (index (member_course_matrix ex_store)) \<subseteq> set (columns (member_similarity_df ex_store))"
    by (simp add: ex_store_def ex_matrix_def ex_similarity_def)
  from no_error_when_similarity_matches_matrix [OF rows cols, of "''M1''" 5] rows cols
  show ?thesis by (intro conjI)
qed

text \<open>
  C5 as stated promises that no lookup fails on any loaded store. The similarity of a
  member is read with \<^verbatim>\<open>member_similarity_df[member_id]\<close> at line 59, without a check:
  on a store whose similarity matrix has no column for \<open>M1\<close>, a member with a row in
  the interaction matrix and in the member table, the call raises KeyError.
\<close>

theorem stale_similarity_raises:
  "get_recommendations ex_store_stale ''M1'' 5 = Inl (KeyError ''M1'')"
  by (simp add: ex_defs run_defs)

end
